theory Spec2Isabelle
  imports Complex_Main
begin

section \<open>String utilities\<close>

text \<open>
  ConfigParser.hpp includes \<^verbatim>\<open>strutil.h\<close> and opens its namespace; that header is not
  among the sources. Its functions are used here as the spec names them: generic string
  primitives (trim, split, prefix and suffix test, substring test).
\<close>

definition newline :: char where
  "newline = CHR 0x0A"

text \<open>Modelled from the spec: whitespace as the C locale's \<^verbatim>\<open>isspace\<close> has it (space, tab,
  line feed, vertical tab, form feed, carriage return); the trimming of strutil.h is missing
  from the sources, the spec says "trimming leading/trailing whitespace".\<close>

definition isspace :: "char \<Rightarrow> bool" where
  "isspace c = (c \<in> set [CHR '' '', CHR 0x09, CHR 0x0A, CHR 0x0B, CHR 0x0C, CHR 0x0D])"

text \<open>Modelled from the spec: \<^verbatim>\<open>strutil::trim_copy\<close> (missing from the sources), the string
  without its leading and trailing whitespace. \<^verbatim>\<open>strutil::trim\<close> is the same, in place.\<close>

definition trim_copy :: "string \<Rightarrow> string" where
  "trim_copy str = rev (dropWhile isspace (rev (dropWhile isspace str)))"

text \<open>Modelled from the spec: \<^verbatim>\<open>strutil::starts_with\<close> (missing from the sources), the
  prefix test.\<close>

definition starts_with :: "string \<Rightarrow> string \<Rightarrow> bool" where
  "starts_with str prefix = (take (length prefix) str = prefix)"

text \<open>Modelled from the spec: \<^verbatim>\<open>strutil::ends_with\<close> (missing from the sources), the
  suffix test.\<close>

definition ends_with :: "string \<Rightarrow> string \<Rightarrow> bool" where
  "ends_with str suffix =
     (length suffix \<le> length str \<and> drop (length str - length suffix) str = suffix)"

text \<open>Modelled from the spec: \<^verbatim>\<open>strutil::contains\<close> (missing from the sources), the
  substring test ("contains a = delimiter").\<close>

fun contains :: "string \<Rightarrow> string \<Rightarrow> bool" where
  "contains [] substring = (substring = [])"
| "contains (c # cs) substring = (starts_with (c # cs) substring \<or> contains cs substring)"

text \<open>Modelled from the spec: \<^verbatim>\<open>strutil::split\<close> (missing from the sources). The spec has
  a value line "split on first = into (key, value)" and then asks whether the "split yields
  at least two parts": the parts are what stands before the first delimiter and what stands
  after it; a string without the delimiter is one part. The parts are returned as they
  stand: trimming is the separate primitive above.\<close>

definition split :: "string \<Rightarrow> char \<Rightarrow> string list" where
  "split str delim =
     (if delim \<in> set str
      then [takeWhile (\<lambda>c. c \<noteq> delim) str, tl (dropWhile (\<lambda>c. c \<noteq> delim) str)]
      else [str])"

section \<open>Vector helpers\<close>

text \<open>\<^verbatim>\<open>find\<close>: the index of the first element equal to the value, or -1.\<close>

fun find_elem :: "'a list \<Rightarrow> 'a \<Rightarrow> int" where
  "find_elem [] v = - 1"
| "find_elem (x # xs) v =
     (if x = v then 0
      else (let r = find_elem xs v in if r = - 1 then - 1 else r + 1))"

text \<open>\<^verbatim>\<open>removeElement\<close>: erases the element at the index \<^verbatim>\<open>find\<close> gives, if any.\<close>

definition removeElement :: "'a list \<Rightarrow> 'a \<Rightarrow> 'a list" where
  "removeElement vectorContainer v =
     (let index = find_elem vectorContainer v
      in if index \<noteq> - 1
         then take (nat index) vectorContainer @ drop (Suc (nat index)) vectorContainer
         else vectorContainer)"

section \<open>Enumerations, lines and values\<close>

datatype ConfigError = FILE_NOT_FOUND | FILE_OPEN_ERROR | FILE_READ_ERROR | NO_ERROR

datatype ConfigType = CONFIG_EMPTY_LINE | CONFIG_COMMENT | CONFIG_SECTION | CONFIG_VALUE

record ConfigLine =
  type :: ConfigType
  content :: string

text \<open>What a call can end in instead of a result: the two standard exceptions the code
  throws, with their messages, and the two accesses C++ leaves undefined: through an empty
  map node handle, and through an iterator of a vector that grew under it.\<close>

datatype failure =
  invalid_argument string
| out_of_range string
| empty_node_access
| invalidated_iterator

text \<open>\<^verbatim>\<open>ConfigValue\<close>: one private member, the text.\<close>

record ConfigValue =
  data :: string

text \<open>\<^verbatim>\<open>setData\<close>, one definition per type it is instantiated at. Here the branches
  that copy the value: \<^verbatim>\<open>std::string\<close>, \<^verbatim>\<open>char\<close>, \<^verbatim>\<open>bool\<close> and \<^verbatim>\<open>const char*\<close>;
  the numeric branch follows with the numbers.\<close>

definition setData_string :: "string \<Rightarrow> ConfigValue" where
  "setData_string v = \<lparr>data = v\<rparr>"


definition setData_bool :: "bool \<Rightarrow> ConfigValue" where
  "setData_bool v = \<lparr>data = (if v = True then ''true'' else ''false'')\<rparr>"

definition setData_cstr :: "string \<Rightarrow> ConfigValue" where
  "setData_cstr v = \<lparr>data = v\<rparr>"





section \<open>Numbers and their text\<close>



definition digit_value :: "char \<Rightarrow> int" where
  "digit_value c = of_char c - 48"



definition read_digits :: "string \<Rightarrow> int" where
  "read_digits ds = foldl (\<lambda>acc c. 10 * acc + digit_value c) 0 ds"




text \<open>Rounding to the nearest integer, a tie to the even one.\<close>

definition round_half_even :: "rat \<Rightarrow> int" where
  "round_half_even q =
     (let f = \<lfloor>q\<rfloor>; r = q - of_int f
      in if r < 1 / 2 then f else if 1 / 2 < r then f + 1 else if even f then f else f + 1)"



























section \<open>The file system\<close>

text \<open>Files are texts by path. \<^verbatim>\<open>std::filesystem::exists\<close> is membership in
  \<open>contents\<close>; \<open>unopenable\<close> holds of the paths where opening a stream fails.\<close>

record FileSystem =
  contents :: "string \<rightharpoonup> string"
  unopenable :: "string \<Rightarrow> bool"

definition fileExists :: "FileSystem \<Rightarrow> string \<Rightarrow> bool" where
  "fileExists fs filePath = (contents fs filePath \<noteq> None)"

text \<open>The text a stream opened on an existing file delivers.\<close>

definition file_text :: "FileSystem \<Rightarrow> string \<Rightarrow> string" where
  "file_text fs filePath = (case contents fs filePath of Some t \<Rightarrow> t | None \<Rightarrow> [])"

text \<open>\<^verbatim>\<open>std::getline\<close> on the rest of the stream: the characters before the next line
  feed, the rest after it, and whether the end of the file was reached (the eof bit). At
  the end of the text the line is what is left, possibly nothing.\<close>

definition getline :: "string \<Rightarrow> string \<times> string \<times> bool" where
  "getline s =
     (if newline \<in> set s
      then (takeWhile (\<lambda>c. c \<noteq> newline) s, tl (dropWhile (\<lambda>c. c \<noteq> newline) s), False)
      else (s, [], True))"

section \<open>Parser\<close>

text \<open>The base class: the error code, the path and the line list. Its stream member is
  closed whenever a call returns a result, so it is not part of the state.\<close>

record Parser =
  errorCode :: ConfigError
  path :: string
  lines :: "ConfigLine list"

definition getPath :: "'a Parser_scheme \<Rightarrow> string" where
  "getPath p = path p"

definition getError :: "'a Parser_scheme \<Rightarrow> ConfigError" where
  "getError p = errorCode p"

definition flush :: "'a Parser_scheme \<Rightarrow> 'a Parser_scheme" where
  "flush p = p\<lparr>errorCode := NO_ERROR\<rparr>"

definition isComment :: "string \<Rightarrow> bool" where
  "isComment str = starts_with (trim_copy str) ''#''"

definition isEmptyLine :: "string \<Rightarrow> bool" where
  "isEmptyLine str = (trim_copy str = [])"

definition isValue :: "string \<Rightarrow> bool" where
  "isValue str = contains str ''=''"

definition isSection :: "string \<Rightarrow> bool" where
  "isSection str = (starts_with (trim_copy str) ''['' \<and> ends_with (trim_copy str) '']'')"

definition extractValue :: "string \<Rightarrow> string list" where
  "extractValue str = split (trim_copy str) CHR ''=''"

definition extractSection :: "string \<Rightarrow> string" where
  "extractSection str = tl (butlast (trim_copy str))"

definition appendLine :: "ConfigType \<Rightarrow> string \<Rightarrow> 'a Parser_scheme \<Rightarrow> 'a Parser_scheme" where
  "appendLine t c p = p\<lparr>lines := lines p @ [\<lparr>type = t, content = c\<rparr>]\<rparr>"

text \<open>\<^verbatim>\<open>removeLine\<close>: erases the first line whose content is the handle, of any type.\<close>

fun remove_first_line :: "ConfigLine list \<Rightarrow> string \<Rightarrow> ConfigLine list" where
  "remove_first_line [] handle = []"
| "remove_first_line (line # rest) handle =
     (if content line = handle then rest else line # remove_first_line rest handle)"

definition removeLine :: "string \<Rightarrow> 'a Parser_scheme \<Rightarrow> 'a Parser_scheme" where
  "removeLine handle p = p\<lparr>lines := remove_first_line (lines p) handle\<rparr>"

definition Parser_erase :: "'a Parser_scheme \<Rightarrow> 'a Parser_scheme" where
  "Parser_erase p = p\<lparr>lines := []\<rparr>"

text \<open>The base class calls the virtual \<^verbatim>\<open>read\<close>, \<^verbatim>\<open>write\<close> and \<^verbatim>\<open>erase\<close>; here they
  are arguments, and each parser instantiates them with its overrides.\<close>

definition readFile ::
  "(FileSystem \<Rightarrow> 'a Parser_scheme \<Rightarrow> 'a Parser_scheme) \<Rightarrow>
   FileSystem \<Rightarrow> 'a Parser_scheme \<Rightarrow> 'a Parser_scheme" where
  "readFile read fs p = (if path p \<noteq> [] then read fs p else p)"

definition load ::
  "('a Parser_scheme \<Rightarrow> 'a Parser_scheme) \<Rightarrow>
   (FileSystem \<Rightarrow> 'a Parser_scheme \<Rightarrow> 'a Parser_scheme) \<Rightarrow>
   FileSystem \<Rightarrow> string \<Rightarrow> 'a Parser_scheme \<Rightarrow> 'a Parser_scheme" where
  "load erase read fs new_path p = readFile read fs ((erase (flush p))\<lparr>path := new_path\<rparr>)"

definition reload ::
  "('a Parser_scheme \<Rightarrow> 'a Parser_scheme) \<Rightarrow>
   (FileSystem \<Rightarrow> 'a Parser_scheme \<Rightarrow> 'a Parser_scheme) \<Rightarrow>
   FileSystem \<Rightarrow> 'a Parser_scheme \<Rightarrow> 'a Parser_scheme" where
  "reload erase read fs p = readFile read fs (erase p)"

definition save ::
  "('a Parser_scheme \<Rightarrow> FileSystem \<Rightarrow> 'r) \<Rightarrow>
   string \<Rightarrow> 'a Parser_scheme \<Rightarrow> FileSystem \<Rightarrow> 'r" where
  "save write_impl new_path p fs =
     write_impl (if new_path \<noteq> [] then p\<lparr>path := new_path\<rparr> else p) fs"

section \<open>ConfigSection\<close>

record ConfigSection =
  dict :: "string \<rightharpoonup> ConfigValue"
  keys :: "string list"

definition ConfigSection_init :: ConfigSection where
  "ConfigSection_init = \<lparr>dict = Map.empty, keys = []\<rparr>"

definition ConfigSection_insert :: "string \<Rightarrow> ConfigValue \<Rightarrow> ConfigSection \<Rightarrow> ConfigSection" where
  "ConfigSection_insert key v s =
     (if dict s key = None
      then s\<lparr>keys := keys s @ [key], dict := (dict s)(key \<mapsto> v)\<rparr>
      else s)"

text \<open>\<^verbatim>\<open>pop\<close> extracts the node and reads its mapped value without testing that the key
  was there: for an absent key the node handle is empty.\<close>

definition ConfigSection_pop :: "string \<Rightarrow> ConfigSection \<Rightarrow> failure + ConfigValue \<times> ConfigSection" where
  "ConfigSection_pop key s =
     (case dict s key of
        None \<Rightarrow> Inl empty_node_access
      | Some v \<Rightarrow> Inr (v, s\<lparr>dict := (dict s)(key := None), keys := removeElement (keys s) key\<rparr>))"

definition ConfigSection_remove :: "string \<Rightarrow> ConfigSection \<Rightarrow> ConfigSection" where
  "ConfigSection_remove key s =
     (if dict s key \<noteq> None
      then s\<lparr>keys := removeElement (keys s) key, dict := (dict s)(key := None)\<rparr>
      else s)"

definition ConfigSection_update :: "string \<Rightarrow> ConfigValue \<Rightarrow> ConfigSection \<Rightarrow> ConfigSection" where
  "ConfigSection_update key v s =
     (if dict s key \<noteq> None then s\<lparr>dict := (dict s)(key \<mapsto> v)\<rparr> else s)"

definition ConfigSection_exists :: "string \<Rightarrow> ConfigSection \<Rightarrow> bool" where
  "ConfigSection_exists key s = (dict s key \<noteq> None)"

definition ConfigSection_clear :: "ConfigSection \<Rightarrow> ConfigSection" where
  "ConfigSection_clear s = s\<lparr>dict := Map.empty, keys := []\<rparr>"

definition ConfigSection_get :: "string \<Rightarrow> ConfigSection \<Rightarrow> failure + ConfigValue" where
  "ConfigSection_get key s =
     (case dict s key of
        Some v \<Rightarrow> Inr v
      | None \<Rightarrow> Inl (out_of_range (''Non existent key: '' @ key)))"

text \<open>The mutable subscript returns a reference into the mapping: the model returns the
  section after the call and the value the reference holds.\<close>

definition ConfigSection_subscript :: "string \<Rightarrow> ConfigSection \<Rightarrow> ConfigSection \<times> ConfigValue" where
  "ConfigSection_subscript key s =
     (case dict s key of
        Some v \<Rightarrow> (s, v)
      | None \<Rightarrow>
          (s\<lparr>dict := (dict s)(key \<mapsto> setData_cstr ''''), keys := keys s @ [key]\<rparr>,
           setData_cstr ''''))"

text \<open>\<^verbatim>\<open>section[key] = value\<close>: the subscript, then the assignment through the reference.\<close>

definition ConfigSection_assign :: "string \<Rightarrow> ConfigValue \<Rightarrow> ConfigSection \<Rightarrow> ConfigSection" where
  "ConfigSection_assign key v s =
     (let s' = fst (ConfigSection_subscript key s) in s'\<lparr>dict := (dict s')(key \<mapsto> v)\<rparr>)"

text \<open>Iteration (\<^verbatim>\<open>begin\<close> to \<^verbatim>\<open>end\<close>) runs over the key vector.\<close>

definition ConfigSection_iterate :: "ConfigSection \<Rightarrow> string list" where
  "ConfigSection_iterate s = keys s"

section \<open>IniParser\<close>

text \<open>The flat document inherits from both \<^verbatim>\<open>Parser\<close> and \<^verbatim>\<open>ConfigSection\<close>: the
  record extends the first and holds the second as its \<open>base\<close>.\<close>

record IniParser = Parser +
  base :: ConfigSection

definition IniParser_insert :: "string \<Rightarrow> ConfigValue \<Rightarrow> IniParser \<Rightarrow> IniParser" where
  "IniParser_insert key v p =
     (if dict (base p) key = None
      then (let p' = appendLine CONFIG_VALUE key p
            in p'\<lparr>base := ConfigSection_insert key v (base p')\<rparr>)
      else p)"

definition IniParser_pop :: "string \<Rightarrow> IniParser \<Rightarrow> failure + ConfigValue \<times> IniParser" where
  "IniParser_pop key p =
     (let p' = (if dict (base p) key \<noteq> None then removeLine key p else p)
      in case ConfigSection_pop key (base p') of
           Inl e \<Rightarrow> Inl e
         | Inr (v, s) \<Rightarrow> Inr (v, p'\<lparr>base := s\<rparr>))"

definition IniParser_remove :: "string \<Rightarrow> IniParser \<Rightarrow> IniParser" where
  "IniParser_remove key p =
     (if dict (base p) key \<noteq> None
      then (let p' = removeLine key p in p'\<lparr>base := ConfigSection_remove key (base p')\<rparr>)
      else p)"

definition IniParser_subscript :: "string \<Rightarrow> IniParser \<Rightarrow> IniParser \<times> ConfigValue" where
  "IniParser_subscript key p =
     (let p' = (if dict (base p) key = None then appendLine CONFIG_VALUE key p else p)
      in case ConfigSection_subscript key (base p') of (s, v) \<Rightarrow> (p'\<lparr>base := s\<rparr>, v))"

definition IniParser_assign :: "string \<Rightarrow> ConfigValue \<Rightarrow> IniParser \<Rightarrow> IniParser" where
  "IniParser_assign key v p =
     (let p' = fst (IniParser_subscript key p)
      in p'\<lparr>base := (base p')\<lparr>dict := (dict (base p'))(key \<mapsto> v)\<rparr>\<rparr>)"

definition IniParser_clear :: "IniParser \<Rightarrow> IniParser" where
  "IniParser_clear p = Parser_erase (p\<lparr>base := ConfigSection_clear (base p)\<rparr>)"

definition IniParser_erase :: "IniParser \<Rightarrow> IniParser" where
  "IniParser_erase p = IniParser_clear p"

text \<open>The body of the reading loop, for one line delivered by \<^verbatim>\<open>getline\<close>.\<close>

definition IniParser_read_line :: "string \<Rightarrow> IniParser \<Rightarrow> IniParser" where
  "IniParser_read_line line p =
     (if isComment line then appendLine CONFIG_COMMENT (trim_copy line) p
      else if isEmptyLine line then appendLine CONFIG_EMPTY_LINE (trim_copy line) p
      else if isValue line then
        (let pare = extractValue line
         in if 2 \<le> int (length pare)
            then IniParser_insert (pare ! 0) (setData_string (pare ! 1))
                   (appendLine CONFIG_VALUE (pare ! 0) p)
            else p)
      else p)"

text \<open>\<^verbatim>\<open>while (!file.eof()) { getline; ... }\<close> over the rest of the stream.\<close>

function IniParser_read_loop :: "string \<Rightarrow> IniParser \<Rightarrow> IniParser" where
  "IniParser_read_loop s p =
     (case getline s of
        (line, rest, eof) \<Rightarrow>
          (let p' = IniParser_read_line line p
           in if eof then p' else IniParser_read_loop rest p'))"
  by pat_completeness auto
termination
  apply (relation "measure (\<lambda>(s, p). length s)")
   apply simp
  apply (auto simp: getline_def split: if_splits dest!: length_pos_if_in_set
      intro!: le_less_trans [OF diff_le_mono [OF length_dropWhile_le]])
  done

definition IniParser_read :: "FileSystem \<Rightarrow> IniParser \<Rightarrow> IniParser" where
  "IniParser_read fs p =
     (if fileExists fs (path p) then
        (if unopenable fs (path p) then p\<lparr>errorCode := FILE_OPEN_ERROR\<rparr>
         else IniParser_read_loop (file_text fs (path p)) p)
      else p\<lparr>errorCode := FILE_NOT_FOUND\<rparr>)"

text \<open>\<^verbatim>\<open>std::map::operator[]\<close>, which the writer uses to look a value up: an absent key
  is inserted with a default value.\<close>

definition map_subscript ::
  "(string \<rightharpoonup> ConfigValue) \<Rightarrow> string \<Rightarrow> (string \<rightharpoonup> ConfigValue) \<times> ConfigValue" where
  "map_subscript m k =
     (case m k of
        Some v \<Rightarrow> (m, v)
      | None \<Rightarrow> (m(k \<mapsto> \<lparr>data = []\<rparr>), \<lparr>data = []\<rparr>))"

text \<open>The writing loop: the mapping as the lookups leave it, and the text written.\<close>

fun IniParser_write_lines ::
  "ConfigLine list \<Rightarrow> (string \<rightharpoonup> ConfigValue) \<Rightarrow> (string \<rightharpoonup> ConfigValue) \<times> string" where
  "IniParser_write_lines [] d = (d, [])"
| "IniParser_write_lines (line # rest) d =
     (if type line = CONFIG_EMPTY_LINE \<or> type line = CONFIG_COMMENT then
        (case IniParser_write_lines rest d of
           (d', out) \<Rightarrow> (d', content line @ [newline] @ out))
      else if type line = CONFIG_VALUE then
        (case map_subscript d (content line) of
           (d1, v) \<Rightarrow>
             (case IniParser_write_lines rest d1 of
                (d', out) \<Rightarrow> (d', content line @ '' = '' @ data v @ [newline] @ out)))
      else IniParser_write_lines rest d)"

definition IniParser_write :: "IniParser \<Rightarrow> FileSystem \<Rightarrow> IniParser \<times> FileSystem" where
  "IniParser_write p fs =
     (if path p \<noteq> [] then
        (if unopenable fs (path p) then (p\<lparr>errorCode := FILE_OPEN_ERROR\<rparr>, fs)
         else (case IniParser_write_lines (lines p) (dict (base p)) of
                 (d, out) \<Rightarrow>
                   (p\<lparr>base := (base p)\<lparr>dict := d\<rparr>\<rparr>,
                    fs\<lparr>contents := (contents fs)(path p \<mapsto> out)\<rparr>)))
      else (p, fs))"

definition IniParser_init :: "FileSystem \<Rightarrow> string \<Rightarrow> IniParser" where
  "IniParser_init fs p =
     readFile IniParser_read fs
       \<lparr>errorCode = NO_ERROR, path = p, lines = [], base = ConfigSection_init\<rparr>"

definition IniParser_load :: "FileSystem \<Rightarrow> string \<Rightarrow> IniParser \<Rightarrow> IniParser" where
  "IniParser_load = load IniParser_erase IniParser_read"

definition IniParser_reload :: "FileSystem \<Rightarrow> IniParser \<Rightarrow> IniParser" where
  "IniParser_reload = reload IniParser_erase IniParser_read"

definition IniParser_save :: "string \<Rightarrow> IniParser \<Rightarrow> FileSystem \<Rightarrow> IniParser \<times> FileSystem" where
  "IniParser_save = save IniParser_write"

section \<open>CfgParser\<close>

text \<open>The sectioned document: the section names in order (the private member
  \<^verbatim>\<open>keys\<close>) and the sections by name (\<^verbatim>\<open>_sections\<close>).\<close>

record CfgParser = Parser +
  section_keys :: "string list"
  sections_map :: "string \<rightharpoonup> ConfigSection"

definition addSection :: "string \<Rightarrow> CfgParser \<Rightarrow> CfgParser" where
  "addSection sectionName p =
     (if sections_map p sectionName = None
      then (let p1 = p\<lparr>section_keys := section_keys p @ [sectionName]\<rparr>;
                p2 = appendLine CONFIG_SECTION sectionName p1
            in p2\<lparr>sections_map := (sections_map p2)(sectionName \<mapsto> ConfigSection_init)\<rparr>)
      else p)"

definition removeSection :: "string \<Rightarrow> CfgParser \<Rightarrow> CfgParser" where
  "removeSection sectionName p =
     (if sections_map p sectionName \<noteq> None
      then (let p1 = p\<lparr>section_keys := removeElement (section_keys p) sectionName\<rparr>;
                p2 = removeLine sectionName p1
            in p2\<lparr>sections_map := (sections_map p2)(sectionName := None)\<rparr>)
      else p)"

definition CfgParser_section :: "string \<Rightarrow> CfgParser \<Rightarrow> failure + ConfigSection" where
  "CfgParser_section sectionName p =
     (case sections_map p sectionName of
        Some s \<Rightarrow> Inr s
      | None \<Rightarrow> Inl (out_of_range (''Section not found: '' @ sectionName)))"

definition sections :: "CfgParser \<Rightarrow> string list" where
  "sections p = section_keys p"

definition CfgParser_clear :: "CfgParser \<Rightarrow> CfgParser" where
  "CfgParser_clear p = Parser_erase (p\<lparr>section_keys := [], sections_map := Map.empty\<rparr>)"

definition CfgParser_erase :: "CfgParser \<Rightarrow> CfgParser" where
  "CfgParser_erase p = CfgParser_clear p"

text \<open>\<^verbatim>\<open>cfg[sectionName][key] = value\<close>: the section by \<^verbatim>\<open>section\<close>, which throws for
  an unknown name, then the section's subscript and the assignment.\<close>

definition CfgParser_assign ::
  "string \<Rightarrow> string \<Rightarrow> ConfigValue \<Rightarrow> CfgParser \<Rightarrow> failure + CfgParser" where
  "CfgParser_assign sectionName key v p =
     (case CfgParser_section sectionName p of
        Inl e \<Rightarrow> Inl e
      | Inr s \<Rightarrow>
          Inr (p\<lparr>sections_map := (sections_map p)(sectionName \<mapsto> ConfigSection_assign key v s)\<rparr>))"

text \<open>\<^verbatim>\<open>_sections[section_name][key] = value\<close> of the reader: the unordered map's own
  subscript, which creates an absent section, then as above.\<close>

definition sections_assign :: "string \<Rightarrow> string \<Rightarrow> ConfigValue \<Rightarrow> CfgParser \<Rightarrow> CfgParser" where
  "sections_assign section_name key v p =
     (let s = (case sections_map p section_name of Some s \<Rightarrow> s | None \<Rightarrow> ConfigSection_init)
      in p\<lparr>sections_map := (sections_map p)(section_name \<mapsto> ConfigSection_assign key v s)\<rparr>)"

text \<open>The inner loop of the reader, \<^verbatim>\<open>while (!section_end && !file.eof())\<close>: it returns
  the document, the rest of the stream and the eof bit.\<close>

function CfgParser_read_section ::
  "string \<Rightarrow> string \<Rightarrow> bool \<Rightarrow> CfgParser \<Rightarrow> CfgParser \<times> string \<times> bool" where
  "CfgParser_read_section section_name s eof p =
     (if eof then (p, s, eof)
      else (case getline s of
              (line, rest, eof') \<Rightarrow>
                if isEmptyLine line then (p, rest, eof')
                else if isValue line then
                  (let v = extractValue line
                   in if 2 \<le> int (length v)
                      then CfgParser_read_section section_name rest eof'
                             (sections_assign section_name (v ! 0) (setData_string (v ! 1)) p)
                      else CfgParser_read_section section_name rest eof' p)
                else CfgParser_read_section section_name rest eof' p))"
  by pat_completeness auto
termination
  apply (relation "measure (\<lambda>(n, s, eof, p). if eof then 0 else Suc (length s))")
     apply simp
    apply (auto simp: getline_def split: if_splits dest!: length_pos_if_in_set
      intro!: le_less_trans [OF diff_le_mono [OF length_dropWhile_le]])
  done

text \<open>The outer loop of the reader. A section header is recorded with the raw line as its
  content, then \<^verbatim>\<open>addSection\<close> is called with the extracted name.\<close>

function CfgParser_read_loop :: "string \<Rightarrow> CfgParser \<Rightarrow> CfgParser" where
  "CfgParser_read_loop s p =
     (case getline s of
        (line, rest, eof) \<Rightarrow>
          if isComment line then
            (let p' = appendLine CONFIG_COMMENT (trim_copy line) p
             in if eof then p' else CfgParser_read_loop rest p')
          else if isEmptyLine line then
            (let p' = appendLine CONFIG_EMPTY_LINE (trim_copy line) p
             in if eof then p' else CfgParser_read_loop rest p')
          else if isSection line then
            (let section_name = extractSection line;
                 p1 = addSection section_name (appendLine CONFIG_SECTION line p)
             in case CfgParser_read_section section_name rest eof p1 of
                  (p2, rest2, eof2) \<Rightarrow> if eof2 then p2 else CfgParser_read_loop rest2 p2)
          else if eof then p else CfgParser_read_loop rest p)"
  by pat_completeness auto
termination
proof -
  have step: "length rest < length s" if "getline s = (line, rest, False)" for s line rest
  proof -
    from that have in_s: "newline \<in> set s" and r: "rest = tl (dropWhile (\<lambda>c. c \<noteq> newline) s)"
      by (auto simp: getline_def split: if_splits)
    have "length rest \<le> length s - 1"
      unfolding r using length_dropWhile_le [of "\<lambda>c. c \<noteq> newline" s] by simp
    moreover have "0 < length s"
      using in_s by (rule length_pos_if_in_set)
    ultimately show ?thesis by linarith
  qed
  have at_end: "rest = []" if "getline s = (line, rest, True)" for s line rest
    using that by (auto simp: getline_def split: if_splits)
  have inner: "length s' \<le> length s \<and> (eof \<longrightarrow> eof')"
    if "CfgParser_read_section n s eof p = (p', s', eof')" for n s eof p p' s' eof'
    using that
  proof (induction n s eof p rule: CfgParser_read_section.induct)
    case (1 n s eof p)
    show ?case
    proof (cases eof)
      case True
      with "1.prems" show ?thesis by simp
    next
      case False
      obtain line rest e where g: "getline s = (line, rest, e)"
        by (cases "getline s") auto
      have le: "length rest \<le> length s"
        using g step [of s line rest] at_end [of s line rest] by (cases e) auto
      show ?thesis
      proof (cases "isEmptyLine line")
        case True
        with "1.prems" False g le show ?thesis by simp
      next
        case ne: False
        have "length s' \<le> length rest \<and> (e \<longrightarrow> eof')"
        proof (cases "isValue line")
          case v: True
          show ?thesis
          proof (cases "2 \<le> int (length (extractValue line))")
            case True
            from "1.IH"(1) [OF False g [symmetric] refl ne v refl True] "1.prems" False g ne v True
            show ?thesis by (simp add: Let_def)
          next
            case f: False
            from "1.IH"(2) [OF False g [symmetric] refl ne v refl f] "1.prems" False g ne v f
            show ?thesis by (simp add: Let_def)
          qed
        next
          case v: False
          from "1.IH"(3) [OF False g [symmetric] refl ne v] "1.prems" False g ne v
          show ?thesis by simp
        qed
        with le show ?thesis using False by simp
      qed
    qed
  qed
  show ?thesis
  proof (relation "measure (\<lambda>(s, p). length s)", goal_cases)
    case 1
    show ?case by simp
  next
    case (2 s p line y rest eof p')
    then have "getline s = (line, rest, False)" by simp
    from step [OF this] show ?case by simp
  next
    case (3 s p line y rest eof p')
    then have "getline s = (line, rest, False)" by simp
    from step [OF this] show ?case by simp
  next
    case (4 s p line y rest eof section_name p1 p2 z rest2 eof2)
    then have r: "CfgParser_read_section section_name rest eof p1 = (p2, rest2, False)"
      and g: "getline s = (line, rest, eof)"
      by simp_all
    from inner [OF r] have "length rest2 \<le> length rest" and "\<not> eof"
      by auto
    with step [of s line rest] g show ?case by simp
  next
    case (5 s p line y rest eof)
    then have "getline s = (line, rest, False)" by simp
    from step [OF this] show ?case by simp
  qed
qed

definition CfgParser_read :: "FileSystem \<Rightarrow> CfgParser \<Rightarrow> CfgParser" where
  "CfgParser_read fs p =
     (if fileExists fs (path p) then
        (if unopenable fs (path p) then p\<lparr>errorCode := FILE_OPEN_ERROR\<rparr>
         else CfgParser_read_loop (file_text fs (path p)) p)
      else p\<lparr>errorCode := FILE_NOT_FOUND\<rparr>)"

text \<open>The body of a section as the writer emits it: one line per key of the key vector,
  each flushed by \<^verbatim>\<open>std::endl\<close>, the value read through the section's subscript. A key of
  the vector that the mapping lacks would make the subscript grow the vector under the
  running iteration: the result is the text of the key lines before it and that
  failure.\<close>

fun CfgParser_write_section :: "string list \<Rightarrow> ConfigSection \<Rightarrow> string \<times> failure option" where
  "CfgParser_write_section [] section = ([], None)"
| "CfgParser_write_section (k # rest) section =
     (case dict section k of
        None \<Rightarrow> ([], Some invalidated_iterator)
      | Some v \<Rightarrow>
          (case CfgParser_write_section rest section of
             (out, f) \<Rightarrow> (k @ '' = '' @ data v @ [newline] @ out, f)))"

text \<open>The writing loop: the text written to the file and, where \<^verbatim>\<open>section\<close> throws at
  a header whose content names no section, that exception. The bracketed header is written
  and flushed before the section is looked up, so the text written up to a throw ends with
  the header of the entry that throws.\<close>

fun CfgParser_write_lines ::
  "ConfigLine list \<Rightarrow> (string \<rightharpoonup> ConfigSection) \<Rightarrow> string \<times> failure option" where
  "CfgParser_write_lines [] m = ([], None)"
| "CfgParser_write_lines (line # rest) m =
     (if type line = CONFIG_EMPTY_LINE \<or> type line = CONFIG_COMMENT then
        (case CfgParser_write_lines rest m of
           (out, f) \<Rightarrow> (content line @ [newline] @ out, f))
      else if type line = CONFIG_SECTION then
        (case m (content line) of
           None \<Rightarrow>
             (''['' @ content line @ '']'' @ [newline],
              Some (out_of_range (''Section not found: '' @ content line)))
         | Some section \<Rightarrow>
             (case CfgParser_write_section (keys section) section of
                (body, Some e) \<Rightarrow> (''['' @ content line @ '']'' @ [newline] @ body, Some e)
              | (body, None) \<Rightarrow>
                  (case CfgParser_write_lines rest m of
                     (out, f) \<Rightarrow>
                       (''['' @ content line @ '']'' @ [newline] @ body
                        @ [newline] @ [newline] @ out, f))))
      else CfgParser_write_lines rest m)"

text \<open>\<^verbatim>\<open>write\<close>: on the right the document and the file system after a write that
  returns; on the left the exception of a write that throws, with the document and the file
  system as the throw leaves them: the file is truncated and holds the text written up to
  the throw. A throw leaves the stream member open; the calls modelled here are those on a
  document whose stream is closed, as it is after every call that returns.\<close>

definition CfgParser_write ::
  "CfgParser \<Rightarrow> FileSystem \<Rightarrow> failure \<times> CfgParser \<times> FileSystem + CfgParser \<times> FileSystem" where
  "CfgParser_write p fs =
     (if path p \<noteq> [] then
        (if unopenable fs (path p) then Inr (p\<lparr>errorCode := FILE_OPEN_ERROR\<rparr>, fs)
         else (case CfgParser_write_lines (lines p) (sections_map p) of
                 (out, None) \<Rightarrow> Inr (p, fs\<lparr>contents := (contents fs)(path p \<mapsto> out)\<rparr>)
               | (out, Some e) \<Rightarrow>
                   Inl (e, p, fs\<lparr>contents := (contents fs)(path p \<mapsto> out)\<rparr>)))
      else Inr (p, fs))"

definition CfgParser_init :: "FileSystem \<Rightarrow> string \<Rightarrow> CfgParser" where
  "CfgParser_init fs p =
     readFile CfgParser_read fs
       \<lparr>errorCode = NO_ERROR, path = p, lines = [], section_keys = [],
        sections_map = Map.empty\<rparr>"

definition CfgParser_load :: "FileSystem \<Rightarrow> string \<Rightarrow> CfgParser \<Rightarrow> CfgParser" where
  "CfgParser_load = load CfgParser_erase CfgParser_read"

definition CfgParser_reload :: "FileSystem \<Rightarrow> CfgParser \<Rightarrow> CfgParser" where
  "CfgParser_reload = reload CfgParser_erase CfgParser_read"

definition CfgParser_save ::
  "string \<Rightarrow> CfgParser \<Rightarrow> FileSystem \<Rightarrow>
   failure \<times> CfgParser \<times> FileSystem + CfgParser \<times> FileSystem" where
  "CfgParser_save = save CfgParser_write"

text \<open>The loops are unfolded by hand where a proof needs it.\<close>

declare IniParser_read_loop.simps [simp del]

declare CfgParser_read_section.simps [simp del]

declare CfgParser_read_loop.simps [simp del]

section \<open>Concrete file systems and documents\<close>

text \<open>A file system without files where every open succeeds, for the evaluations below.\<close>

definition no_files :: FileSystem where
  "no_files = \<lparr>contents = Map.empty, unopenable = (\<lambda>f. False)\<rparr>"



section \<open>The line of a key\<close>

text \<open>The line the sectioned writer emits for one key of a section.\<close>

definition key_value_line :: "ConfigSection \<Rightarrow> string \<Rightarrow> string" where
  "key_value_line section k =
     k @ '' = '' @ (case dict section k of Some v \<Rightarrow> data v | None \<Rightarrow> []) @ [newline]"

section \<open>The mutable subscript\<close>

text \<open>
  C8. The mutable subscript on a key the section lacks creates the key with the empty text
  and appends one entry, the key, to the key order; the same subscript again returns the
  same value and leaves the section as it is. On the flat document the first call also
  appends one value line for the key, and the second call leaves the document, its line
  list included, as it is.
\<close>

theorem subscript_autocreates_once:
  "(dict s key = None \<longrightarrow>
      (case ConfigSection_subscript key s of
         (s1, v1) \<Rightarrow>
           data v1 = [] \<and> dict s1 key = Some \<lparr>data = []\<rparr> \<and> keys s1 = keys s @ [key]
           \<and> (\<forall>k. k \<noteq> key \<longrightarrow> dict s1 k = dict s k)
           \<and> ConfigSection_subscript key s1 = (s1, v1)))
   \<and> (dict (base p) key = None \<longrightarrow>
      (case IniParser_subscript key p of
         (p1, v1) \<Rightarrow>
           data v1 = [] \<and> dict (base p1) key = Some \<lparr>data = []\<rparr>
           \<and> keys (base p1) = keys (base p) @ [key]
           \<and> lines p1 = lines p @ [\<lparr>type = CONFIG_VALUE, content = key\<rparr>]
           \<and> IniParser_subscript key p1 = (p1, v1)))"
  by (simp add: ConfigSection_subscript_def IniParser_subscript_def setData_cstr_def
      appendLine_def)

theorem subscript_autocreates_once_witness:
  "dict ConfigSection_init ''unknownKey'' = None
   \<and> keys (fst (ConfigSection_subscript ''unknownKey'' ConfigSection_init)) = [''unknownKey'']
   \<and> keys (fst (ConfigSection_subscript ''unknownKey''
        (fst (ConfigSection_subscript ''unknownKey'' ConfigSection_init)))) = [''unknownKey'']
   \<and> dict (base (IniParser_init no_files '''')) ''unknownKey'' = None
   \<and> lines (fst (IniParser_subscript ''unknownKey''
        (fst (IniParser_subscript ''unknownKey'' (IniParser_init no_files ''''))))) =
       [\<lparr>type = CONFIG_VALUE, content = ''unknownKey''\<rparr>]"
  using subscript_autocreates_once [of ConfigSection_init "''unknownKey''"
      "IniParser_init no_files ''''"]
  by (simp add: ConfigSection_init_def IniParser_init_def readFile_def no_files_def
      split: prod.splits)

section \<open>The bound path\<close>















section \<open>Writing a section\<close>

lemma CfgParser_write_section_text:
  "set ks \<subseteq> dom (dict section) \<Longrightarrow>
   CfgParser_write_section ks section = (concat (map (key_value_line section) ks), None)"
  by (induction ks) (auto simp: key_value_line_def)

lemma CfgParser_write_lines_append:
  "CfgParser_write_lines (xs @ ys) m =
     (case CfgParser_write_lines xs m of
        (a, Some e) \<Rightarrow> (a, Some e)
      | (a, None) \<Rightarrow>
          (case CfgParser_write_lines ys m of (b, f) \<Rightarrow> (a @ b, f)))"
  by (induction xs) (auto split: prod.splits option.splits)

text \<open>What the writer does at a section header entry, at any position of the line list.
  When an entry before it throws, the entry is not reached. Otherwise the bracketed content
  is written; when the content names no section the write ends there with the exception of
  \<^verbatim>\<open>section\<close>; when it names a section whose key order lists keys of its mapping, one
  "key = value" line per key follows, then two line feeds, then the text of the entries
  after it.\<close>

lemma CfgParser_write_lines_at_header:
  assumes "type line = CONFIG_SECTION"
  shows "CfgParser_write_lines (before @ line # after) m =
     (case CfgParser_write_lines before m of
        (a, Some e) \<Rightarrow> (a, Some e)
      | (a, None) \<Rightarrow>
          (case m (content line) of
             None \<Rightarrow>
               (a @ ''['' @ content line @ '']'' @ [newline],
                Some (out_of_range (''Section not found: '' @ content line)))
           | Some section \<Rightarrow>
               (case CfgParser_write_section (keys section) section of
                  (body, Some e) \<Rightarrow> (a @ ''['' @ content line @ '']'' @ [newline] @ body, Some e)
                | (body, None) \<Rightarrow>
                    (case CfgParser_write_lines after m of
                       (b, f) \<Rightarrow>
                         (a @ ''['' @ content line @ '']'' @ [newline] @ body
                          @ [newline, newline] @ b, f)))))"
  using assms
  by (simp add: CfgParser_write_lines_append split: prod.splits option.splits)

text \<open>
  C6, evaluated. A file with the lines "[S]" and "k=v" is loaded into a sectioned
  document. The reader records the header twice: once with the raw line "[S]" as content,
  once, by \<^verbatim>\<open>addSection\<close>, with the name S. The save that follows writes the first entry
  as "[[S]]", finds no section of the name "[S]" and throws \<^verbatim>\<open>std::out_of_range\<close>: the
  file is left with that one line, and neither the header "[S]" nor the key line is
  written. A document built by \<^verbatim>\<open>addSection\<close> alone is written with its header and key
  line, followed by two line feeds, that is two empty lines.
\<close>

theorem loaded_section_header_written:
  "(let fs = \<lparr>contents = [''a.cfg'' \<mapsto> ''[S]'' @ [newline] @ ''k=v'' @ [newline]],
               unopenable = (\<lambda>f. False)\<rparr>;
        c = CfgParser_load fs ''a.cfg'' (CfgParser_init no_files '''')
    in errorCode c = NO_ERROR
     \<and> sections c = [''S'']
     \<and> lines c = [\<lparr>type = CONFIG_SECTION, content = ''[S]''\<rparr>,
                  \<lparr>type = CONFIG_SECTION, content = ''S''\<rparr>]
     \<and> (case sections_map c ''S'' of
           None \<Rightarrow> False
         | Some s \<Rightarrow> keys s = [''k''] \<and> dict s ''k'' = Some \<lparr>data = ''v''\<rparr>)
     \<and> sections_map c ''[S]'' = None
     \<and> (case CfgParser_save [] c fs of
           Inr r \<Rightarrow> False
         | Inl (e, c', fs') \<Rightarrow>
             e = out_of_range ''Section not found: [S]''
             \<and> contents fs' ''a.cfg'' = Some (''[[S]]'' @ [newline])))
   \<and> (case CfgParser_assign ''S'' ''k'' (setData_cstr ''v'')
             (addSection ''S'' (CfgParser_init no_files '''')) of
        Inl e \<Rightarrow> False
      | Inr c \<Rightarrow>
          lines c = [\<lparr>type = CONFIG_SECTION, content = ''S''\<rparr>]
          \<and> (case CfgParser_save ''a.cfg'' c no_files of
                Inl e \<Rightarrow> False
              | Inr (c', fs) \<Rightarrow>
                  contents fs ''a.cfg''
                    = Some (''[S]'' @ [newline] @ ''k = v'' @ [newline]
                            @ [newline, newline])))"
  by code_simp

section \<open>The section's operations, in general\<close>

lemma find_elem_absent: "v \<notin> set xs \<Longrightarrow> find_elem xs v = - 1"
  by (induction xs) auto

lemma find_elem_nonneg: "v \<in> set xs \<Longrightarrow> 0 \<le> find_elem xs v"
  by (induction xs) (auto simp: Let_def)

lemma removeElement_remove1: "removeElement xs v = remove1 v xs"
proof (induction xs)
  case Nil
  show ?case by (simp add: removeElement_def)
next
  case (Cons x xs)
  show ?case
  proof (cases "x = v")
    case True
    then show ?thesis by (simp add: removeElement_def)
  next
    case ne: False
    show ?thesis
    proof (cases "v \<in> set xs")
      case True
      from find_elem_nonneg [OF True] have nn: "0 \<le> find_elem xs v" .
      then have "nat (find_elem xs v + 1) = Suc (nat (find_elem xs v))"
        by simp
      with Cons.IH nn ne show ?thesis
        by (simp add: removeElement_def Let_def)
    next
      case False
      with ne find_elem_absent [OF False] show ?thesis
        by (simp add: removeElement_def Let_def remove1_idem)
    qed
  qed
qed

text \<open>\<^verbatim>\<open>pop\<close> of a key the section holds returns its value and removes it from the
  mapping and from the key order.\<close>

lemma pop_of_present_key:
  assumes "dict s key = Some v"
  shows "\<exists>s'. ConfigSection_pop key s = Inr (v, s')
           \<and> dict s' key = None \<and> keys s' = remove1 key (keys s)
           \<and> \<not> ConfigSection_exists key s'"
  using assms
  by (simp add: ConfigSection_pop_def ConfigSection_exists_def removeElement_remove1)

text \<open>The invariant of a section (the key order lists the keys of the mapping, each once)
  is kept by the operations of \<^verbatim>\<open>ConfigSection\<close> itself.\<close>

lemma section_invariant_kept:
  assumes "set (keys s) = dom (dict s)" and "distinct (keys s)"
  shows "set (keys (ConfigSection_insert key v s)) = dom (dict (ConfigSection_insert key v s))
           \<and> distinct (keys (ConfigSection_insert key v s))"
    and "set (keys (ConfigSection_update key v s)) = dom (dict (ConfigSection_update key v s))
           \<and> distinct (keys (ConfigSection_update key v s))"
    and "set (keys (ConfigSection_remove key s)) = dom (dict (ConfigSection_remove key s))
           \<and> distinct (keys (ConfigSection_remove key s))"
    and "set (keys (fst (ConfigSection_subscript key s)))
           = dom (dict (fst (ConfigSection_subscript key s)))
           \<and> distinct (keys (fst (ConfigSection_subscript key s)))"
    and "set (keys (ConfigSection_clear s)) = dom (dict (ConfigSection_clear s))
           \<and> distinct (keys (ConfigSection_clear s))"
    and "ConfigSection_pop key s = Inr (v', s') \<Longrightarrow>
           set (keys s') = dom (dict s') \<and> distinct (keys s')"
  using assms
  by (auto simp: ConfigSection_insert_def ConfigSection_update_def ConfigSection_remove_def
      ConfigSection_subscript_def ConfigSection_clear_def ConfigSection_pop_def
      removeElement_remove1 split: option.splits if_splits)

section \<open>Typed values\<close>




subsection \<open>Digits\<close>







lemma read_digits_Nil: "read_digits [] = 0"
  by (simp add: read_digits_def)










subsection \<open>Exponents and rounding\<close>



lemma round_half_even_of_int: "round_half_even (of_int m) = m"
  by (simp add: round_half_even_def Let_def)


subsection \<open>Reading a literal\<close>














subsection \<open>Reading what was written\<close>





subsection \<open>The round trip\<close>




section \<open>The reader's loop body, in general\<close>

text \<open>A value line whose key is new appends two value lines for the key and inserts the
  pair; a value line whose key the document holds appends one value line and keeps the
  first value. Key and value are the first two parts of the trimmed line as the split
  gives them.\<close>

lemma IniParser_read_line_new_key:
  assumes "\<not> isComment line" and "\<not> isEmptyLine line" and "isValue line"
    and "2 \<le> length (extractValue line)"
    and "dict (base p) (extractValue line ! 0) = None"
  shows "lines (IniParser_read_line line p) =
           lines p @ [\<lparr>type = CONFIG_VALUE, content = extractValue line ! 0\<rparr>,
                      \<lparr>type = CONFIG_VALUE, content = extractValue line ! 0\<rparr>]"
    and "keys (base (IniParser_read_line line p)) = keys (base p) @ [extractValue line ! 0]"
    and "dict (base (IniParser_read_line line p)) =
           (dict (base p))(extractValue line ! 0 \<mapsto> \<lparr>data = extractValue line ! 1\<rparr>)"
  using assms
  by (simp_all add: IniParser_read_line_def IniParser_insert_def appendLine_def
      ConfigSection_insert_def setData_string_def Let_def)

lemma IniParser_read_line_old_key:
  assumes "\<not> isComment line" and "\<not> isEmptyLine line" and "isValue line"
    and "2 \<le> length (extractValue line)"
    and "dict (base p) (extractValue line ! 0) = Some v"
  shows "lines (IniParser_read_line line p) =
           lines p @ [\<lparr>type = CONFIG_VALUE, content = extractValue line ! 0\<rparr>]"
    and "base (IniParser_read_line line p) = base p"
  using assms
  by (simp_all add: IniParser_read_line_def IniParser_insert_def appendLine_def Let_def)

section \<open>The error code after a load and after a reload\<close>

lemma load_ignores_old_error:
  "IniParser_load fs new_path (p\<lparr>errorCode := e\<rparr>) = IniParser_load fs new_path p"
  by (simp add: IniParser_load_def load_def flush_def)

lemma errorCode_IniParser_read_line: "errorCode (IniParser_read_line line p) = errorCode p"
  by (simp add: IniParser_read_line_def appendLine_def IniParser_insert_def Let_def)

lemma errorCode_IniParser_read_loop: "errorCode (IniParser_read_loop s p) = errorCode p"
proof (induction s p rule: IniParser_read_loop.induct)
  case (1 s p)
  obtain line rest eof where g: "getline s = (line, rest, eof)"
    by (cases "getline s") auto
  show ?case
  proof (cases eof)
    case True
    with g show ?thesis
      by (subst IniParser_read_loop.simps) (simp add: errorCode_IniParser_read_line)
  next
    case False
    with g "1.IH" [OF g [symmetric] refl refl False] show ?thesis
      by (subst IniParser_read_loop.simps) (simp add: errorCode_IniParser_read_line)
  qed
qed

text \<open>A reload that finds and opens its file leaves the error code as it was, whatever it
  was; so does a reload with no path bound.\<close>

lemma reload_error_unchanged:
  assumes "path p = [] \<or> (contents fs (path p) \<noteq> None \<and> \<not> unopenable fs (path p))"
  shows "errorCode (IniParser_reload fs p) = errorCode p"
  using assms
  by (auto simp: IniParser_reload_def reload_def readFile_def IniParser_read_def
      fileExists_def IniParser_erase_def IniParser_clear_def Parser_erase_def
      errorCode_IniParser_read_loop)

section \<open>Reading back what was saved\<close>

text \<open>
  C1, evaluated. The flat document holding the one pair k = v is saved as the line
  "k = v"; loading that file gives the key "k " (with the space before the delimiter) with
  the value " v" (with the space after it), records the value line twice, and records an
  empty line for the end of the file. The key k is gone: the key set and the values are not
  those of the saved document.
\<close>

theorem flat_save_load_at_k_v:
  "(let p1 = IniParser_insert ''k'' (setData_string ''v'') (IniParser_init no_files '''');
        saved = IniParser_save ''a.ini'' p1 no_files;
        p3 = IniParser_load (snd saved) ''a.ini'' (fst saved)
    in keys (base p1) = [''k''] \<and> dict (base p1) ''k'' = Some \<lparr>data = ''v''\<rparr>
     \<and> lines p1 = [\<lparr>type = CONFIG_VALUE, content = ''k''\<rparr>]
     \<and> contents (snd saved) ''a.ini'' = Some (''k = v'' @ [newline])
     \<and> errorCode p3 = NO_ERROR
     \<and> keys (base p3) = [''k '']
     \<and> dict (base p3) ''k'' = None
     \<and> dict (base p3) ''k '' = Some \<lparr>data = '' v''\<rparr>
     \<and> lines p3 = [\<lparr>type = CONFIG_VALUE, content = ''k ''\<rparr>,
                   \<lparr>type = CONFIG_VALUE, content = ''k ''\<rparr>,
                   \<lparr>type = CONFIG_EMPTY_LINE, content = []\<rparr>])"
  by code_simp

text \<open>
  C2, evaluated. The sectioned document of the scenario (AppInfo with name and version,
  Settings with debug_mode and max_connections) is saved and reloaded. The section names
  come back in order, but every key comes back with a space after it and every value with
  a space before it: the keys name, version, debug_mode and max_connections are gone.
\<close>

theorem sectioned_save_reload_scenario:
  "(case CfgParser_assign ''AppInfo'' ''name'' (setData_cstr ''ConfigParserDemo'')
           (addSection ''AppInfo'' (CfgParser_init no_files '''')) of
      Inl e \<Rightarrow> False
    | Inr c1 \<Rightarrow>
    (case CfgParser_assign ''AppInfo'' ''version'' (setData_cstr ''1'') c1 of
      Inl e \<Rightarrow> False
    | Inr c2 \<Rightarrow>
    (case CfgParser_assign ''Settings'' ''debug_mode'' (setData_bool True)
           (addSection ''Settings'' c2) of
      Inl e \<Rightarrow> False
    | Inr c3 \<Rightarrow>
    (case CfgParser_assign ''Settings'' ''max_connections'' (setData_cstr ''100'') c3 of
      Inl e \<Rightarrow> False
    | Inr c4 \<Rightarrow>
    (case CfgParser_save ''demo.cfg'' c4 no_files of
      Inl e \<Rightarrow> False
    | Inr (c5, fs) \<Rightarrow>
    (case (sections_map c4 ''AppInfo'', sections_map c4 ''Settings'',
           sections_map (CfgParser_reload fs c5) ''AppInfo'',
           sections_map (CfgParser_reload fs c5) ''Settings'') of
      (Some a, Some s, Some a', Some s') \<Rightarrow>
        keys a = [''name'', ''version''] \<and> keys s = [''debug_mode'', ''max_connections'']
        \<and> sections (CfgParser_reload fs c5) = [''AppInfo'', ''Settings'']
        \<and> errorCode (CfgParser_reload fs c5) = NO_ERROR
        \<and> keys a' = [''name '', ''version '']
        \<and> keys s' = [''debug_mode '', ''max_connections '']
        \<and> dict a' ''name'' = None
        \<and> dict a' ''name '' = Some \<lparr>data = '' ConfigParserDemo''\<rparr>
        \<and> dict a' ''version '' = Some \<lparr>data = '' 1''\<rparr>
        \<and> dict s' ''debug_mode '' = Some \<lparr>data = '' true''\<rparr>
        \<and> dict s' ''max_connections '' = Some \<lparr>data = '' 100''\<rparr>
    | other \<Rightarrow> False))))))"
  by code_simp

section \<open>The error code\<close>

text \<open>
  C3, evaluated. A flat document is constructed on the path of a file that does not exist:
  the error code is FILE_NOT_FOUND. Saving it creates the file. The reload that follows
  reads the file (it records the empty line of the empty file) and leaves the error code
  at FILE_NOT_FOUND, where a load of the same path resets it to NO_ERROR.
\<close>

theorem reload_keeps_old_error:
  "(let p1 = IniParser_init no_files ''a.ini'';
        saved = IniParser_save [] p1 no_files;
        p2 = IniParser_reload (snd saved) (fst saved);
        p3 = IniParser_load (snd saved) ''a.ini'' (fst saved)
    in getError p1 = FILE_NOT_FOUND
     \<and> contents (snd saved) ''a.ini'' = Some []
     \<and> lines p2 = [\<lparr>type = CONFIG_EMPTY_LINE, content = []\<rparr>]
     \<and> getError p2 = FILE_NOT_FOUND
     \<and> lines p3 = [\<lparr>type = CONFIG_EMPTY_LINE, content = []\<rparr>]
     \<and> getError p3 = NO_ERROR)"
  by code_simp

section \<open>Removing a key\<close>

text \<open>
  C4, evaluated. \<^verbatim>\<open>pop\<close> of a key the section lacks, on a section and on the flat
  document: the mapped value is read through the empty node handle, which is undefined
  behaviour; no exception is thrown. \<^verbatim>\<open>get\<close> of the same key throws
  \<^verbatim>\<open>std::out_of_range\<close>.
\<close>

theorem pop_of_absent_key:
  "ConfigSection_pop ''x'' ConfigSection_init = Inl empty_node_access
   \<and> IniParser_pop ''x'' (IniParser_init no_files '''') = Inl empty_node_access
   \<and> ConfigSection_get ''x'' ConfigSection_init = Inl (out_of_range ''Non existent key: x'')"
  by (simp add: ConfigSection_pop_def IniParser_pop_def ConfigSection_get_def
      ConfigSection_init_def IniParser_init_def readFile_def)

section \<open>Reading a value line\<close>

text \<open>
  C5, evaluated. The reader's loop body on the line "k=v" of an empty flat document
  appends two value lines for k, one by the loop body and one by \<^verbatim>\<open>insert\<close>; on the
  line "k = v" the key is "k " and the value " v", untrimmed. A file with the one line
  "k=v" is loaded with two value lines and saved again as two lines.
\<close>

theorem value_line_read_at_k_v:
  "(let p0 = IniParser_init no_files '''';
        p1 = IniParser_read_line ''k=v'' p0;
        p2 = IniParser_read_line ''k = v'' p0;
        fs = \<lparr>contents = [''a.ini'' \<mapsto> ''k=v''], unopenable = (\<lambda>f. False)\<rparr>;
        p3 = IniParser_load fs ''a.ini'' p0
    in lines p0 = []
     \<and> lines p1 = [\<lparr>type = CONFIG_VALUE, content = ''k''\<rparr>,
                   \<lparr>type = CONFIG_VALUE, content = ''k''\<rparr>]
     \<and> keys (base p1) = [''k''] \<and> dict (base p1) ''k'' = Some \<lparr>data = ''v''\<rparr>
     \<and> extractValue ''k = v'' = [''k '', '' v'']
     \<and> keys (base p2) = [''k ''] \<and> dict (base p2) ''k '' = Some \<lparr>data = '' v''\<rparr>
     \<and> lines p3 = [\<lparr>type = CONFIG_VALUE, content = ''k''\<rparr>,
                   \<lparr>type = CONFIG_VALUE, content = ''k''\<rparr>]
     \<and> contents (snd (IniParser_save [] p3 fs)) ''a.ini''
         = Some (''k = v'' @ [newline] @ ''k = v'' @ [newline]))"
  by code_simp

section \<open>Key order and mapping\<close>

text \<open>
  C7, evaluated. A file with the one line "k=v" is loaded, the key k is removed, and the
  document is saved. The load recorded two value lines for k and the removal erased one
  of them; the writer looks the other one up with the mapping's subscript, which inserts k
  with the empty text. After the save the mapping holds k, \<^verbatim>\<open>exists\<close> answers true,
  and the key order is empty.
\<close>

theorem load_remove_save_at_k_v:
  "(let fs = \<lparr>contents = [''a.ini'' \<mapsto> ''k=v''], unopenable = (\<lambda>f. False)\<rparr>;
        p1 = IniParser_load fs ''a.ini'' (IniParser_init no_files '''');
        p2 = IniParser_remove ''k'' p1;
        saved = IniParser_save [] p2 fs
    in keys (base p1) = [''k''] \<and> dict (base p1) ''k'' = Some \<lparr>data = ''v''\<rparr>
     \<and> keys (base p2) = [] \<and> dict (base p2) ''k'' = None
     \<and> lines p2 = [\<lparr>type = CONFIG_VALUE, content = ''k''\<rparr>]
     \<and> keys (base (fst saved)) = []
     \<and> dict (base (fst saved)) ''k'' = Some \<lparr>data = []\<rparr>
     \<and> ConfigSection_exists ''k'' (base (fst saved))
     \<and> ConfigSection_iterate (base (fst saved)) = []
     \<and> contents (snd saved) ''a.ini'' = Some (''k = '' @ [newline]))"
  by code_simp

end
